theory Spec2Isabelle
  imports Main
begin

section \<open>Shared values\<close>

text \<open>
  Exceptions of the two modules, as values. \<open>Exception\<close> carries the message the
  source builds; the others are the built-in exceptions raised by a failed \<open>open\<close>,
  an index out of range, a failed \<open>int(...)\<close> and a failed \<open>assert\<close>.
\<close>

datatype error = IOError | IndexError | ValueError | AssertionError | Exception string

section \<open>jsfunfuzz/jsunhappy.py\<close>

subsection \<open>Levels of unhappiness\<close>

text \<open>
  \<^verbatim>\<open>(JS_FINE, JS_TIMED_OUT, JS_ABNORMAL_EXIT, JS_DID_NOT_FINISH, JS_DECIDED_TO_EXIT,
   JS_MALLOC_ERROR, JS_NEW_ASSERT_OR_CRASH) = range(7)\<close>
  The levels are plain Python integers, compared with \<open>max\<close> and \<open>>=\<close>.
\<close>

definition JS_FINE :: int where "JS_FINE = 0"
definition JS_TIMED_OUT :: int where "JS_TIMED_OUT = 1"
definition JS_ABNORMAL_EXIT :: int where "JS_ABNORMAL_EXIT = 2"
definition JS_DID_NOT_FINISH :: int where "JS_DID_NOT_FINISH = 3"
definition JS_DECIDED_TO_EXIT :: int where "JS_DECIDED_TO_EXIT = 4"
definition JS_MALLOC_ERROR :: int where "JS_MALLOC_ERROR = 5"
definition JS_NEW_ASSERT_OR_CRASH :: int where "JS_NEW_ASSERT_OR_CRASH = 6"

subsection \<open>The collaborators of \<open>level\<close>\<close>

text \<open>
  Modelled from the spec: the status constants of the module \<open>ntr\<close>, which is not among
  the sources. The spec's RunResult has status in {NORMAL, CRASHED, TIMED_OUT, ABNORMAL};
  \<open>level\<close> only compares a status for equality with one of these constants.
\<close>

datatype status = NORMAL | CRASHED | TIMED_OUT | ABNORMAL

text \<open>
  The fields of the object \<open>ntr.timed_run\<close> returns that \<open>level\<close> reads. The elapsed
  time, a float that is only printed, is left out.
\<close>

record runinfo =
  sta :: status
  msg :: string

text \<open>
  The files a run leaves behind: a path is mapped to the lines that iterating over the
  open file yields (each with its line terminator), or to \<open>None\<close> when the file
  cannot be opened.
\<close>

type_synonym files = "string \<Rightarrow> string list option"

text \<open>
  The state that \<open>detect_assertions.init\<close> and \<open>detect_interesting_crashes.init\<close>
  keep in their modules: the known path each was initialised with, \<open>None\<close> before
  the call of \<open>init\<close>.
\<close>

record detectors =
  assertions_known :: "string option"
  crashes_known :: "string option"

text \<open>
  What \<open>level\<close> and \<open>interesting\<close> call and do not define: \<open>ntr.timed_run\<close> (here
  also returning the files it wrote), the three \<open>amiss\<close> functions, which read the
  files of the run and, for two of them, the state their \<open>init\<close> has set, and the
  built-in \<open>int\<close> on a string (\<open>None\<close> when it raises ValueError).
\<close>

record world =
  timed_run :: "string list \<Rightarrow> int \<Rightarrow> string \<Rightarrow> runinfo \<times> files"
  detect_assertions_amiss :: "string option \<Rightarrow> files \<Rightarrow> string \<Rightarrow> bool \<Rightarrow> bool"
  detect_interesting_crashes_amiss ::
    "string option \<Rightarrow> files \<Rightarrow> string \<Rightarrow> bool \<Rightarrow> string \<Rightarrow> bool"
  detect_malloc_errors_amiss :: "files \<Rightarrow> string \<Rightarrow> bool"
  py_int :: "string \<Rightarrow> int option"

subsection \<open>\<open>level\<close>\<close>

definition looking_good :: string where
  "looking_good = ''It's looking good!\<newline>''"

definition stopping :: string where
  "stopping = ''jsfunfuzz stopping due to above error!\<newline>''"

text \<open>
  The loop \<^verbatim>\<open>for line in logfile\<close>: the pair is the value of \<open>(lev, issues)\<close>
  before the remaining lines are read.
\<close>

fun scan_log :: "string list \<Rightarrow> int \<times> string list \<Rightarrow> int \<times> string list" where
  "scan_log [] acc = acc"
| "scan_log (line # rest) (lev, issues) =
     (if line = looking_good then scan_log rest (JS_FINE, [])
      else if line = stopping then scan_log rest (JS_DECIDED_TO_EXIT, [''jsfunfuzz decided to exit''])
      else scan_log rest (lev, issues))"

text \<open>
  One \<^verbatim>\<open>if cond: issues.append(issue); lev = max(lev, floor)\<close> of the source.
\<close>

definition note_issue :: "bool \<Rightarrow> string \<Rightarrow> int \<Rightarrow> int \<times> string list \<Rightarrow> int \<times> string list" where
  "note_issue cond issue floor acc =
     (if cond then (max (fst acc) floor, snd acc @ [issue]) else acc)"

text \<open>
  \<open>level\<close> returns \<open>lev\<close> and prints \<open>issues\<close> in its summary line; the model
  returns both. A log file that cannot be opened raises IOError. The crash detector is
  called only when the status is CRASHED (Python's \<open>and\<close> does not evaluate its
  second operand otherwise).
\<close>

definition level ::
  "world \<Rightarrow> detectors \<Rightarrow> string list \<Rightarrow> int \<Rightarrow> string \<Rightarrow> error + (int \<times> string list)" where
  "level w d runthis timeout logPrefix =
     (let (runinfo, fs) = timed_run w runthis timeout logPrefix in
      case fs (logPrefix @ ''-out'') of
        None \<Rightarrow> Inl IOError
      | Some logfile \<Rightarrow>
          let acc = scan_log logfile (JS_DID_NOT_FINISH, [''jsfunfuzz didn't finish'']);
              acc = note_issue (detect_assertions_amiss w (assertions_known d) fs logPrefix True)
                      ''unknown assertion'' JS_NEW_ASSERT_OR_CRASH acc;
              acc = note_issue (sta runinfo = CRASHED \<and>
                        detect_interesting_crashes_amiss w (crashes_known d) fs logPrefix True
                          (msg runinfo))
                      ''unknown crash'' JS_NEW_ASSERT_OR_CRASH acc;
              acc = note_issue (detect_malloc_errors_amiss w fs logPrefix)
                      ''malloc error'' JS_MALLOC_ERROR acc;
              acc = note_issue (sta runinfo = ABNORMAL) ''abnormal exit'' JS_ABNORMAL_EXIT acc;
              acc = note_issue (sta runinfo = TIMED_OUT) ''timed out'' JS_TIMED_OUT acc
          in Inr acc)"

text \<open>
  The invariant of the pair \<open>(lev, issues)\<close> all through \<open>level\<close>: no issue is
  recorded exactly when the level is still \<open>JS_FINE\<close>, and a level is never below
  \<open>JS_FINE\<close>.
\<close>

definition tidy :: "int \<times> string list \<Rightarrow> bool" where
  "tidy acc \<longleftrightarrow> (snd acc = [] \<longleftrightarrow> fst acc = JS_FINE) \<and> JS_FINE \<le> fst acc"

subsection \<open>\<open>interesting\<close> and \<open>init\<close>\<close>

text \<open>
  \<open>args[0]\<close> and \<open>args[1]\<close> raise IndexError on a list that is too short, \<open>int\<close>
  raises ValueError, and \<open>args[3:]\<close> is the empty list when there are at most three
  arguments. An exception of \<open>level\<close> propagates.
\<close>

definition interesting :: "world \<Rightarrow> detectors \<Rightarrow> string list \<Rightarrow> string \<Rightarrow> error + bool" where
  "interesting w d args tempPrefix =
     (if length args < 1 then Inl IndexError
      else (case py_int w (args ! 0) of
        None \<Rightarrow> Inl ValueError
      | Some minimumInterestingLevel \<Rightarrow>
          (if length args < 2 then Inl IndexError
           else (case py_int w (args ! 1) of
             None \<Rightarrow> Inl ValueError
           | Some timeout \<Rightarrow>
               (case level w d (drop 3 args) timeout tempPrefix of
                  Inl e \<Rightarrow> Inl e
                | Inr (actualLevel, issues) \<Rightarrow>
                    Inr (actualLevel \<ge> minimumInterestingLevel))))))"

definition initWithKnownPath :: "string \<Rightarrow> detectors \<Rightarrow> detectors" where
  "initWithKnownPath knownPath d =
     d\<lparr>assertions_known := Some knownPath, crashes_known := Some knownPath\<rparr>"

definition init :: "string list \<Rightarrow> detectors \<Rightarrow> error + detectors" where
  "init args d =
     (if length args < 3 then Inl IndexError else Inr (initWithKnownPath (args ! 2) d))"

section \<open>js/inspectShell.py\<close>

subsection \<open>Strings\<close>

text \<open>
  Python's \<open>needle in haystack\<close> on strings: \<open>starts_with\<close> compares the needle with
  the front of the text, \<open>str_in\<close> tries every position.
\<close>

fun starts_with :: "string \<Rightarrow> string \<Rightarrow> bool" where
  "starts_with [] s = True"
| "starts_with (p # ps) [] = False"
| "starts_with (p # ps) (c # cs) = (p = c \<and> starts_with ps cs)"

fun str_in :: "string \<Rightarrow> string \<Rightarrow> bool" where
  "str_in needle [] = (needle = [])"
| "str_in needle (c # cs) = (starts_with needle (c # cs) \<or> str_in needle cs)"

text \<open>
  \<open>s.split(sep, 1)\<close> for a separator of one character: one part when the separator
  does not occur, otherwise the text before its first occurrence and the text after it.
\<close>

definition split1 :: "char \<Rightarrow> string \<Rightarrow> string list" where
  "split1 sep s =
     (let front = takeWhile (\<lambda>c. c \<noteq> sep) s; back = dropWhile (\<lambda>c. c \<noteq> sep) s
      in if back = [] then [front] else [front, tl back])"

text \<open>\<open>str\<close> of an integer: decimal digits, with a minus sign when negative.\<close>

fun str_nat :: "nat \<Rightarrow> string" where
  "str_nat n =
     (if n < 10 then [''0123456789'' ! n]
      else str_nat (n div 10) @ [''0123456789'' ! (n mod 10)])"

definition str_int :: "int \<Rightarrow> string" where
  "str_int i = (if i < 0 then CHR ''-'' # str_nat (nat (- i)) else str_nat (nat i))"

subsection \<open>The collaborators\<close>

text \<open>
  The keyword arguments a call of \<open>captureStdout\<close> gives, \<open>None\<close> for one it leaves
  out. \<open>env\<close> holds the shell path from which the source computes
  \<open>envWithPath(os.path.dirname(os.path.abspath(shellPath)))\<close>.
\<close>

record kwargs =
  combineStderr :: "bool option"
  ignoreStderr :: "bool option"
  ignoreExitCode :: "bool option"
  env :: "string option"

definition no_kwargs :: kwargs where
  "no_kwargs = \<lparr>combineStderr = None, ignoreStderr = None, ignoreExitCode = None, env = None\<rparr>"

text \<open>
  What the module imports from \<open>subprocesses\<close>, which is not among the sources: the
  platform flags and \<open>captureStdout\<close>, which runs a command and returns its output
  and its exit code, or raises.
\<close>

record platform =
  isWin :: bool
  isMac :: bool
  isARMv7l :: bool
  captureStdout :: "string list \<Rightarrow> kwargs \<Rightarrow> error + (string \<times> int)"

subsection \<open>\<open>archOfBinary\<close>\<close>

text \<open>
  The result is \<open>Some ''32''\<close> or \<open>Some ''64''\<close> for a returned string and \<open>None\<close>
  where the function reaches its end without a \<open>return\<close>, so that Python returns
  \<open>None\<close>. \<open>[1]\<close> on the result of \<open>split\<close> raises IndexError when the output has no
  colon.
\<close>

definition archOfBinary :: "platform \<Rightarrow> string \<Rightarrow> error + string option" where
  "archOfBinary pf binary =
     (case captureStdout pf [''file'', binary] no_kwargs of
        Inl e \<Rightarrow> Inl e
      | Inr (unsplitFiletype, rc) \<Rightarrow>
          (let parts = split1 CHR '':'' unsplitFiletype in
           if length parts < 2 then Inl IndexError
           else
             (let filetype = parts ! 1 in
              if isWin pf then
                (if \<not> str_in ''PE executable for MS Windows (console)'' filetype
                 then Inl AssertionError
                 else Inr (Some (if str_in ''Intel 80386 32-bit'' filetype then ''32'' else ''64'')))
              else if str_in ''universal binary'' filetype then
                Inl (Exception ''I don't know how to deal with multiple-architecture binaries'')
              else if str_in ''32-bit'' filetype \<or> str_in ''i386'' filetype then
                (if str_in ''64-bit'' filetype then Inl AssertionError else Inr (Some ''32''))
              else if str_in ''64-bit'' filetype then
                (if str_in ''32-bit'' filetype then Inl AssertionError else Inr (Some ''64''))
              else Inr None)))"

subsection \<open>\<open>shellSupports\<close>\<close>

definition constructVgCmdList :: "platform \<Rightarrow> int \<Rightarrow> string list" where
  "constructVgCmdList pf errorCode =
     [''valgrind''] @
     (if isMac pf then [''--dsymutil=yes''] else []) @
     [''--error-exitcode='' @ str_int errorCode] @
     (if \<not> isARMv7l pf then [''--smc-check=all-non-file''] else []) @
     [''--vex-iropt-register-updates=allregs-at-mem-access'',
      ''--gen-suppressions=all'',
      ''--leak-check=full'',
      ''--errors-for-leak-kinds=definite'',
      ''--show-leak-kinds=definite'',
      ''--show-possibly-lost=no'',
      ''--num-callers=50'']"

definition testBinary ::
  "platform \<Rightarrow> string \<Rightarrow> string list \<Rightarrow> bool \<Rightarrow> error + (string \<times> int)" where
  "testBinary pf shellPath args useValgrind =
     (let testCmd = (if useValgrind then constructVgCmdList pf 77 else []) @ [shellPath] @ args
      in captureStdout pf testCmd
           \<lparr>combineStderr = Some True, ignoreStderr = Some True, ignoreExitCode = Some True,
            env = Some shellPath\<rparr>)"

definition shellSupports :: "platform \<Rightarrow> string \<Rightarrow> string list \<Rightarrow> error + bool" where
  "shellSupports pf shellPath args =
     (case testBinary pf shellPath args False of
        Inl e \<Rightarrow> Inl e
      | Inr (output, retCode) \<Rightarrow>
          if retCode = 0 then Inr True
          else if 1 \<le> retCode \<and> retCode \<le> 3 then Inr False
          else Inl (Exception (''Unexpected exit code in shellSupports '' @ str_int retCode)))"

section \<open>Concrete runs\<close>

text \<open>
  A world in which every run ends with the given status, leaves exactly the given lines
  in \<open><logPrefix>-out\<close> and gets the given answers from the three detectors, and in
  which \<open>int\<close> reads a few decimal literals. The theorems below are instantiated at it.
\<close>

definition example_world :: "status \<Rightarrow> string list \<Rightarrow> bool \<Rightarrow> bool \<Rightarrow> bool \<Rightarrow> world" where
  "example_world st lines a c m =
     \<lparr>timed_run = (\<lambda>runthis timeout logPrefix.
        (\<lparr>sta = st, msg = ''exit''\<rparr>,
         (\<lambda>path. if path = logPrefix @ ''-out'' then Some lines else None))),
      detect_assertions_amiss = (\<lambda>known fs logPrefix verbose. a),
      detect_interesting_crashes_amiss = (\<lambda>known fs logPrefix verbose message. c),
      detect_malloc_errors_amiss = (\<lambda>fs logPrefix. m),
      py_int = map_of [(''0'', 0), (''1'', 1), (''3'', 3), (''5'', 5), (''6'', 6), (''10'', 10)]\<rparr>"

definition uninitialised :: detectors where
  "uninitialised = \<lparr>assertions_known = None, crashes_known = None\<rparr>"

text \<open>A non-Windows platform on which every command prints the given text and exits
  with the given code.\<close>

definition example_platform :: "string \<Rightarrow> int \<Rightarrow> platform" where
  "example_platform out rc =
     \<lparr>isWin = False, isMac = False, isARMv7l = False,
      captureStdout = (\<lambda>cmd kw. Inr (out, rc))\<rparr>"

section \<open>Properties of the classifier\<close>

lemmas JS_defs = JS_FINE_def JS_TIMED_OUT_def JS_ABNORMAL_EXIT_def JS_DID_NOT_FINISH_def
  JS_DECIDED_TO_EXIT_def JS_MALLOC_ERROR_def JS_NEW_ASSERT_OR_CRASH_def

subsection \<open>The scan of the log\<close>

lemma scan_log_append:
  "scan_log (xs @ ys) acc = scan_log ys (scan_log xs acc)"
  by (induction xs acc rule: scan_log.induct) simp_all

lemma markers_distinct: "looking_good \<noteq> stopping"
  by (simp add: looking_good_def stopping_def)

lemma scan_log_plain:
  "looking_good \<notin> set xs \<Longrightarrow> stopping \<notin> set xs \<Longrightarrow> scan_log xs acc = acc"
  by (induction xs acc rule: scan_log.induct) auto

lemma scan_log_fine_kept:
  "stopping \<notin> set xs \<Longrightarrow> scan_log xs (JS_FINE, []) = (JS_FINE, [])"
  by (induction xs) auto

lemma scan_log_exit_kept:
  "looking_good \<notin> set xs \<Longrightarrow>
   scan_log xs (JS_DECIDED_TO_EXIT, [''jsfunfuzz decided to exit''])
     = (JS_DECIDED_TO_EXIT, [''jsfunfuzz decided to exit''])"
  by (induction xs) auto

lemma scan_log_good_line: "scan_log [looking_good] acc = (JS_FINE, [])"
  by (cases acc) simp

lemma scan_log_stop_line:
  "scan_log [stopping] acc = (JS_DECIDED_TO_EXIT, [''jsfunfuzz decided to exit''])"
  using markers_distinct by (cases acc) auto

lemma scan_log_last_good:
  "stopping \<notin> set post \<Longrightarrow> scan_log (pre @ looking_good # post) acc = (JS_FINE, [])"
proof -
  assume post: "stopping \<notin> set post"
  have "scan_log (pre @ [looking_good] @ post) acc
          = scan_log post (scan_log [looking_good] (scan_log pre acc))"
    by (simp only: scan_log_append)
  also have "\<dots> = scan_log post (JS_FINE, [])"
    by (simp only: scan_log_good_line)
  also have "\<dots> = (JS_FINE, [])"
    using post by (rule scan_log_fine_kept)
  finally show ?thesis by simp
qed

lemma scan_log_last_stop:
  "looking_good \<notin> set post \<Longrightarrow>
   scan_log (pre @ stopping # post) acc = (JS_DECIDED_TO_EXIT, [''jsfunfuzz decided to exit''])"
proof -
  assume post: "looking_good \<notin> set post"
  have "scan_log (pre @ [stopping] @ post) acc
          = scan_log post (scan_log [stopping] (scan_log pre acc))"
    by (simp only: scan_log_append)
  also have "\<dots> = scan_log post (JS_DECIDED_TO_EXIT, [''jsfunfuzz decided to exit''])"
    by (simp only: scan_log_stop_line)
  also have "\<dots> = (JS_DECIDED_TO_EXIT, [''jsfunfuzz decided to exit''])"
    using post by (rule scan_log_exit_kept)
  finally show ?thesis by simp
qed

lemma scan_log_only_good:
  assumes "looking_good \<in> set xs" "stopping \<notin> set xs"
  shows "scan_log xs acc = (JS_FINE, [])"
proof -
  from assms(1) obtain pre post where xs: "xs = pre @ looking_good # post"
    by (auto simp: in_set_conv_decomp)
  with assms(2) have "stopping \<notin> set post" by simp
  then show ?thesis unfolding xs by (rule scan_log_last_good)
qed

lemma scan_log_only_stop:
  assumes "stopping \<in> set xs" "looking_good \<notin> set xs"
  shows "scan_log xs acc = (JS_DECIDED_TO_EXIT, [''jsfunfuzz decided to exit''])"
proof -
  from assms(1) obtain pre post where xs: "xs = pre @ stopping # post"
    by (auto simp: in_set_conv_decomp)
  with assms(2) have "looking_good \<notin> set post" by simp
  then show ?thesis unfolding xs by (rule scan_log_last_stop)
qed

subsection \<open>The last marker line decides the base classification\<close>

text \<open>
  C2. The loop over the log lines never stops early, and each marker line overwrites
  the level and the issue list left by the lines before it. So whatever precedes it
  (the other marker included), a success line followed by no self-terminated line
  leaves \<open>(JS_FINE, [])\<close>, and a self-terminated line followed by no success line
  leaves \<open>JS_DECIDED_TO_EXIT\<close> with its one issue: when both markers occur, the one
  that occurs last decides.
\<close>

theorem last_marker_wins:
  "(stopping \<notin> set post \<longrightarrow>
      scan_log (pre @ [looking_good] @ post) acc = (JS_FINE, [])) \<and>
   (looking_good \<notin> set post \<longrightarrow>
      scan_log (pre @ [stopping] @ post) acc
        = (JS_DECIDED_TO_EXIT, [''jsfunfuzz decided to exit'']))"
  by (simp add: scan_log_last_good scan_log_last_stop)

theorem last_marker_wins_witness:
  "scan_log [stopping, ''x'', looking_good, ''y'']
       (JS_DID_NOT_FINISH, [''jsfunfuzz didn't finish''])
     = (JS_FINE, []) \<and>
   scan_log [looking_good, ''x'', stopping, ''y'']
       (JS_DID_NOT_FINISH, [''jsfunfuzz didn't finish''])
     = (JS_DECIDED_TO_EXIT, [''jsfunfuzz decided to exit''])"
  using last_marker_wins [of "[''y'']" "[stopping, ''x'']"
          "(JS_DID_NOT_FINISH, [''jsfunfuzz didn't finish''])"]
        last_marker_wins [of "[''y'']" "[looking_good, ''x'']"
          "(JS_DID_NOT_FINISH, [''jsfunfuzz didn't finish''])"]
  by (simp add: looking_good_def stopping_def)

subsection \<open>What \<open>level\<close> computes\<close>

text \<open>
  When the run's log can be opened, \<open>level\<close> returns: the five conditional steps
  applied, in the order of the source, to the result of the scan. It raises exactly when
  the log cannot be opened.
\<close>

lemma level_unfold:
  assumes "timed_run w runthis timeout logPrefix = (ri, fs)"
      and "fs (logPrefix @ ''-out'') = Some logfile"
  shows "level w d runthis timeout logPrefix =
     Inr (note_issue (sta ri = TIMED_OUT) ''timed out'' JS_TIMED_OUT
         (note_issue (sta ri = ABNORMAL) ''abnormal exit'' JS_ABNORMAL_EXIT
         (note_issue (detect_malloc_errors_amiss w fs logPrefix) ''malloc error'' JS_MALLOC_ERROR
         (note_issue (sta ri = CRASHED \<and>
              detect_interesting_crashes_amiss w (crashes_known d) fs logPrefix True (msg ri))
            ''unknown crash'' JS_NEW_ASSERT_OR_CRASH
         (note_issue (detect_assertions_amiss w (assertions_known d) fs logPrefix True)
            ''unknown assertion'' JS_NEW_ASSERT_OR_CRASH
         (scan_log logfile (JS_DID_NOT_FINISH, [''jsfunfuzz didn't finish''])))))))"
  using assms by (simp add: level_def Let_def)

lemma level_Inr_iff:
  "(\<exists>r. level w d runthis timeout logPrefix = Inr r) \<longleftrightarrow>
   snd (timed_run w runthis timeout logPrefix) (logPrefix @ ''-out'') \<noteq> None"
  by (auto simp: level_def Let_def split: prod.splits option.splits)

subsection \<open>An empty log and a timeout\<close>

text \<open>
  The statement that an empty log with status TIMED_OUT and silent detectors is
  classified \<open>JS_TIMED_OUT\<close> with issues "did not finish", "timed out" does not hold.
  The level starts at \<open>JS_DID_NOT_FINISH\<close> (3) with the issue
  "jsfunfuzz didn't finish"; no line changes it; the timeout appends "timed out" and takes
  \<open>max(lev, JS_TIMED_OUT)\<close>, which is still \<open>JS_DID_NOT_FINISH\<close>, since
  \<open>JS_TIMED_OUT\<close> is 1.
\<close>

theorem empty_log_timed_out_counterexample:
  "level (example_world TIMED_OUT [] False False False) uninitialised [''js''] 10 ''w1''
     = Inr (JS_DID_NOT_FINISH, [''jsfunfuzz didn't finish'', ''timed out'']) \<and>
   JS_DID_NOT_FINISH \<noteq> JS_TIMED_OUT \<and>
   [''jsfunfuzz didn't finish'', ''timed out''] \<noteq> [''did not finish'', ''timed out'']"
  by (simp add: level_def example_world_def uninitialised_def note_issue_def JS_defs)

text \<open>
  C1, as the code has it. For a run whose log is empty, whose status is TIMED_OUT and for
  which neither the assertion detector nor the allocator-error detector reports true,
  \<open>level\<close> returns \<open>JS_DID_NOT_FINISH\<close> and its issue list is exactly
  "jsfunfuzz didn't finish", "timed out", in that order. The crash detector is not
  consulted for this status, so nothing is assumed about it.
\<close>

theorem empty_log_timed_out:
  assumes "timed_run w runthis timeout logPrefix = (ri, fs)"
      and "fs (logPrefix @ ''-out'') = Some []"
      and "sta ri = TIMED_OUT"
      and "\<not> detect_assertions_amiss w (assertions_known d) fs logPrefix True"
      and "\<not> detect_malloc_errors_amiss w fs logPrefix"
  shows "level w d runthis timeout logPrefix
           = Inr (JS_DID_NOT_FINISH, [''jsfunfuzz didn't finish'', ''timed out''])"
  using assms(3-5) unfolding level_unfold [OF assms(1,2)]
  by (simp add: note_issue_def JS_defs)

theorem empty_log_timed_out_witness:
  "level (example_world TIMED_OUT [] False False False) uninitialised [''js'', ''-f'', ''x.js''] 5 ''w2''
     = Inr (JS_DID_NOT_FINISH, [''jsfunfuzz didn't finish'', ''timed out''])"
  by (rule empty_log_timed_out [where ri = "\<lparr>sta = TIMED_OUT, msg = ''exit''\<rparr>"
        and fs = "\<lambda>path. if path = ''w2'' @ ''-out'' then Some [] else None"])
     (simp_all add: example_world_def)

subsection \<open>Detectors only raise the level\<close>

lemma note_issue_le: "fst acc \<le> fst (note_issue c i floor acc)"
  by (simp add: note_issue_def)

lemma note_issue_mono:
  "fst a \<le> fst b \<Longrightarrow> (c \<longrightarrow> c') \<Longrightarrow> fst (note_issue c i floor a) \<le> fst (note_issue c' i floor b)"
  by (auto simp: note_issue_def)

text \<open>
  C3. Take two worlds with the same runs and the same log, where every detector that
  reports true in the first also reports true in the second (so the second is obtained
  by switching detector answers from false to true, one of them or several). Then the
  second world's level is not below the first's, under the same detector state and for
  the same command, timeout and log prefix.
\<close>

theorem detector_monotone:
  assumes same_run: "timed_run w' = timed_run w" 
      and a: "\<And>known fs p v. detect_assertions_amiss w known fs p v
                \<Longrightarrow> detect_assertions_amiss w' known fs p v"
      and c: "\<And>known fs p v m. detect_interesting_crashes_amiss w known fs p v m
                \<Longrightarrow> detect_interesting_crashes_amiss w' known fs p v m"
      and m: "\<And>fs p. detect_malloc_errors_amiss w fs p \<Longrightarrow> detect_malloc_errors_amiss w' fs p"
      and before: "level w d runthis timeout logPrefix = Inr (lev, issues)"
  shows "\<exists>lev' issues'. level w' d runthis timeout logPrefix = Inr (lev', issues') \<and> lev \<le> lev'"
proof -
  obtain ri fs where run: "timed_run w runthis timeout logPrefix = (ri, fs)"
    by (cases "timed_run w runthis timeout logPrefix")
  with before obtain logfile where log: "fs (logPrefix @ ''-out'') = Some logfile"
    by (auto simp: level_def split: option.splits)
  from run same_run have run': "timed_run w' runthis timeout logPrefix = (ri, fs)"
    by simp
  let ?b = "scan_log logfile (JS_DID_NOT_FINISH, [''jsfunfuzz didn't finish''])"
  let ?A = "\<lambda>v. detect_assertions_amiss v (assertions_known d) fs logPrefix True"
  let ?C = "\<lambda>v. sta ri = CRASHED \<and>
              detect_interesting_crashes_amiss v (crashes_known d) fs logPrefix True (msg ri)"
  let ?M = "\<lambda>v. detect_malloc_errors_amiss v fs logPrefix"
  let ?s1 = "\<lambda>v. note_issue (?A v) ''unknown assertion'' JS_NEW_ASSERT_OR_CRASH ?b"
  let ?s2 = "\<lambda>v. note_issue (?C v) ''unknown crash'' JS_NEW_ASSERT_OR_CRASH (?s1 v)"
  let ?s3 = "\<lambda>v. note_issue (?M v) ''malloc error'' JS_MALLOC_ERROR (?s2 v)"
  let ?s4 = "\<lambda>v. note_issue (sta ri = ABNORMAL) ''abnormal exit'' JS_ABNORMAL_EXIT (?s3 v)"
  let ?s5 = "\<lambda>v. note_issue (sta ri = TIMED_OUT) ''timed out'' JS_TIMED_OUT (?s4 v)"
  have l: "level w d runthis timeout logPrefix = Inr (?s5 w)"
    by (rule level_unfold [OF run log])
  have l': "level w' d runthis timeout logPrefix = Inr (?s5 w')"
    by (rule level_unfold [OF run' log])
  have "fst (?s1 w) \<le> fst (?s1 w')"
    by (rule note_issue_mono) (use a in auto)
  then have "fst (?s2 w) \<le> fst (?s2 w')"
    by (rule note_issue_mono) (use c in auto)
  then have "fst (?s3 w) \<le> fst (?s3 w')"
    by (rule note_issue_mono) (use m in auto)
  then have "fst (?s4 w) \<le> fst (?s4 w')"
    by (rule note_issue_mono) simp
  then have "fst (?s5 w) \<le> fst (?s5 w')"
    by (rule note_issue_mono) simp
  moreover from before l have "lev = fst (?s5 w)"
    by (metis Inr_inject fst_conv)
  ultimately have "lev \<le> fst (?s5 w')"
    by simp
  with l' show ?thesis
    by (metis prod.collapse)
qed

theorem detector_monotone_witness:
  "level (example_world NORMAL [looking_good] False False False) uninitialised [''js''] 5 ''w4''
     = Inr (JS_FINE, []) \<and>
   (\<exists>lev' issues'.
      level (example_world NORMAL [looking_good] False False True) uninitialised [''js''] 5 ''w4''
        = Inr (lev', issues') \<and> JS_FINE \<le> lev')"
proof -
  have before: "level (example_world NORMAL [looking_good] False False False) uninitialised
                  [''js''] 5 ''w4'' = Inr (JS_FINE, [])"
    by (simp add: level_def example_world_def uninitialised_def note_issue_def JS_defs)
  show ?thesis
    using before
      detector_monotone [of "example_world NORMAL [looking_good] False False True"
        "example_world NORMAL [looking_good] False False False", OF _ _ _ _ before]
    by (simp add: example_world_def)
qed

subsection \<open>No issue exactly when the level is fine\<close>

lemma tidy_scan_log: "tidy acc \<Longrightarrow> tidy (scan_log xs acc)"
  by (induction xs acc rule: scan_log.induct) (auto simp: tidy_def JS_defs)

lemma tidy_note_issue: "tidy acc \<Longrightarrow> JS_FINE < floor \<Longrightarrow> tidy (note_issue c i floor acc)"
  by (auto simp: tidy_def note_issue_def JS_defs)

lemma tidy_level:
  assumes "level w d runthis timeout logPrefix = Inr acc"
  shows "tidy acc"
proof -
  obtain ri fs where run: "timed_run w runthis timeout logPrefix = (ri, fs)"
    by (cases "timed_run w runthis timeout logPrefix")
  with assms obtain logfile where log: "fs (logPrefix @ ''-out'') = Some logfile"
    by (auto simp: level_def split: option.splits)
  have "tidy (JS_DID_NOT_FINISH, [''jsfunfuzz didn't finish''])"
    by (simp add: tidy_def JS_defs)
  then have "tidy (scan_log logfile (JS_DID_NOT_FINISH, [''jsfunfuzz didn't finish'']))"
    by (rule tidy_scan_log)
  then show ?thesis
    using assms unfolding level_unfold [OF run log]
    by (auto intro!: tidy_note_issue simp: JS_defs)
qed

text \<open>
  C4. Whatever the log, the status and the detectors' answers, whenever \<open>level\<close>
  returns, the issue list it has built is empty if and only if the level is
  \<open>JS_FINE\<close>.
\<close>

theorem issues_empty_iff_fine:
  "level w d runthis timeout logPrefix = Inr (lev, issues) \<Longrightarrow>
   (issues = [] \<longleftrightarrow> lev = JS_FINE)"
  using tidy_level [of w d runthis timeout logPrefix "(lev, issues)"]
  by (simp add: tidy_def)

theorem issues_empty_iff_fine_witness:
  "level (example_world ABNORMAL [looking_good] False False False) uninitialised [''js''] 5 ''w3''
     = Inr (JS_ABNORMAL_EXIT, [''abnormal exit'']) \<and>
   ([''abnormal exit''] = [] \<longleftrightarrow> JS_ABNORMAL_EXIT = JS_FINE)"
proof -
  have run: "level (example_world ABNORMAL [looking_good] False False False) uninitialised
               [''js''] 5 ''w3'' = Inr (JS_ABNORMAL_EXIT, [''abnormal exit''])"
    by (simp add: level_def example_world_def uninitialised_def note_issue_def JS_defs)
  from issues_empty_iff_fine [OF run] run show ?thesis by simp
qed

subsection \<open>Marker precedence\<close>

text \<open>
  C5. With status NORMAL and neither the assertion detector nor the allocator-error
  detector reporting true (the crash detector is not consulted for this status): a log
  with the success line and no self-terminated line is \<open>JS_FINE\<close> with no issue; a
  log with the self-terminated line and no success line is \<open>JS_DECIDED_TO_EXIT\<close>; a
  log with neither is \<open>JS_DID_NOT_FINISH\<close>.
\<close>

theorem marker_precedence:
  assumes "timed_run w runthis timeout logPrefix = (ri, fs)"
      and "fs (logPrefix @ ''-out'') = Some logfile"
      and "sta ri = NORMAL"
      and "\<not> detect_assertions_amiss w (assertions_known d) fs logPrefix True"
      and "\<not> detect_malloc_errors_amiss w fs logPrefix"
  shows "(looking_good \<in> set logfile \<and> stopping \<notin> set logfile \<longrightarrow>
            level w d runthis timeout logPrefix = Inr (JS_FINE, [])) \<and>
         (stopping \<in> set logfile \<and> looking_good \<notin> set logfile \<longrightarrow>
            level w d runthis timeout logPrefix
              = Inr (JS_DECIDED_TO_EXIT, [''jsfunfuzz decided to exit''])) \<and>
         (looking_good \<notin> set logfile \<and> stopping \<notin> set logfile \<longrightarrow>
            level w d runthis timeout logPrefix
              = Inr (JS_DID_NOT_FINISH, [''jsfunfuzz didn't finish'']))"
  using assms(3-5) unfolding level_unfold [OF assms(1,2)]
  by (simp add: note_issue_def scan_log_only_good scan_log_only_stop scan_log_plain)

theorem marker_precedence_witness:
  "level (example_world NORMAL [looking_good] False False False) uninitialised [''js''] 5 ''w5''
     = Inr (JS_FINE, []) \<and>
   level (example_world NORMAL [stopping] False False False) uninitialised [''js''] 5 ''w5''
     = Inr (JS_DECIDED_TO_EXIT, [''jsfunfuzz decided to exit'']) \<and>
   level (example_world NORMAL [''hello\<newline>''] False False False) uninitialised [''js''] 5 ''w5''
     = Inr (JS_DID_NOT_FINISH, [''jsfunfuzz didn't finish''])"
proof -
  have ne: "stopping \<noteq> looking_good"
    by (simp add: looking_good_def stopping_def)
  have good: "level (example_world NORMAL [looking_good] False False False) uninitialised
                [''js''] 5 ''w5'' = Inr (JS_FINE, [])"
    using marker_precedence [of "example_world NORMAL [looking_good] False False False"
      "[''js'']" 5 "''w5''" "\<lparr>sta = NORMAL, msg = ''exit''\<rparr>"
      "\<lambda>path. if path = ''w5'' @ ''-out'' then Some [looking_good] else None"
      "[looking_good]" uninitialised] ne
    by (simp add: example_world_def)
  have stop: "level (example_world NORMAL [stopping] False False False) uninitialised
                [''js''] 5 ''w5'' = Inr (JS_DECIDED_TO_EXIT, [''jsfunfuzz decided to exit''])"
    using marker_precedence [of "example_world NORMAL [stopping] False False False"
      "[''js'']" 5 "''w5''" "\<lparr>sta = NORMAL, msg = ''exit''\<rparr>"
      "\<lambda>path. if path = ''w5'' @ ''-out'' then Some [stopping] else None"
      "[stopping]" uninitialised] ne
    by (simp add: example_world_def)
  have other: "looking_good \<noteq> ''hello\<newline>''" "stopping \<noteq> ''hello\<newline>''"
    by (simp_all add: looking_good_def stopping_def)
  have none: "level (example_world NORMAL [''hello\<newline>''] False False False) uninitialised
                [''js''] 5 ''w5'' = Inr (JS_DID_NOT_FINISH, [''jsfunfuzz didn't finish''])"
    using marker_precedence [of "example_world NORMAL [''hello\<newline>''] False False False"
      "[''js'']" 5 "''w5''" "\<lparr>sta = NORMAL, msg = ''exit''\<rparr>"
      "\<lambda>path. if path = ''w5'' @ ''-out'' then Some [''hello\<newline>''] else None"
      "[''hello\<newline>'']" uninitialised] other
    by (simp add: example_world_def)
  from good stop none show ?thesis by simp
qed

subsection \<open>The floor of a timeout\<close>

text \<open>
  C6. For a run with status TIMED_OUT whose log holds the success line and for which
  neither the assertion detector nor the allocator-error detector reports true, the
  level returned is the maximum of the level the scan of the log gave and
  \<open>JS_TIMED_OUT\<close>, hence at least \<open>JS_TIMED_OUT\<close>, and "timed out" is appended to
  the issues of the scan.
\<close>

theorem timed_out_floor:
  assumes "timed_run w runthis timeout logPrefix = (ri, fs)"
      and "fs (logPrefix @ ''-out'') = Some logfile"
      and "looking_good \<in> set logfile"
      and "sta ri = TIMED_OUT"
      and "\<not> detect_assertions_amiss w (assertions_known d) fs logPrefix True"
      and "\<not> detect_malloc_errors_amiss w fs logPrefix"
      and "base = scan_log logfile (JS_DID_NOT_FINISH, [''jsfunfuzz didn't finish''])"
  shows "level w d runthis timeout logPrefix
           = Inr (max (fst base) JS_TIMED_OUT, snd base @ [''timed out'']) \<and>
         JS_TIMED_OUT \<le> max (fst base) JS_TIMED_OUT"
  using assms(4-7) unfolding level_unfold [OF assms(1,2)]
  by (simp add: note_issue_def)

theorem timed_out_floor_witness:
  "level (example_world TIMED_OUT [looking_good] False False False) uninitialised [''js''] 5 ''w6''
     = Inr (JS_TIMED_OUT, [''timed out'']) \<and> JS_FINE < JS_TIMED_OUT"
  using timed_out_floor [of "example_world TIMED_OUT [looking_good] False False False" "[''js'']" 5
      "''w6''" "\<lparr>sta = TIMED_OUT, msg = ''exit''\<rparr>"
      "\<lambda>path. if path = ''w6'' @ ''-out'' then Some [looking_good] else None"
      "[looking_good]" uninitialised "(JS_FINE, [])"]
  by (simp add: example_world_def JS_defs)


section \<open>Properties of the predicate\<close>

text \<open>
  C7. When both numeric arguments are read by \<open>int\<close> and \<open>level\<close> returns for the
  command \<open>args[3:]\<close>, \<open>interesting\<close> returns the truth value of "the level is
  greater than or equal to the minimum interesting level \<open>int(args[0])\<close>".
\<close>

theorem interesting_iff_level_reached:
  assumes "args \<noteq> []"
      and "py_int w (args ! 0) = Some minimumInterestingLevel"
      and "2 \<le> length args"
      and "py_int w (args ! 1) = Some timeout"
      and "level w d (drop 3 args) timeout tempPrefix = Inr (actualLevel, issues)"
  shows "interesting w d args tempPrefix = Inr (minimumInterestingLevel \<le> actualLevel)"
  using assms by (simp add: interesting_def)

theorem interesting_iff_level_reached_witness:
  "interesting (example_world CRASHED [] False True False) uninitialised
     [''5'', ''10'', ''known'', ''js'', ''-f'', ''a.js''] ''w7'' = Inr True \<and>
   interesting (example_world NORMAL [looking_good] False False False) uninitialised
     [''5'', ''10'', ''known'', ''js'', ''-f'', ''a.js''] ''w7'' = Inr False"
proof -
  have crash: "level (example_world CRASHED [] False True False) uninitialised
                 (drop 3 [''5'', ''10'', ''known'', ''js'', ''-f'', ''a.js'']) 10 ''w7''
               = Inr (JS_NEW_ASSERT_OR_CRASH, [''jsfunfuzz didn't finish'', ''unknown crash''])"
    by (simp add: level_def example_world_def uninitialised_def note_issue_def JS_defs)
  have fine: "level (example_world NORMAL [looking_good] False False False) uninitialised
                 (drop 3 [''5'', ''10'', ''known'', ''js'', ''-f'', ''a.js'']) 10 ''w7''
               = Inr (JS_FINE, [])"
    by (simp add: level_def example_world_def uninitialised_def note_issue_def JS_defs)
  show ?thesis
    using interesting_iff_level_reached [OF _ _ _ _ crash, of 5]
          interesting_iff_level_reached [OF _ _ _ _ fine, of 5]
    by (simp add: example_world_def JS_defs)
qed

text \<open>
  C10. Two argument lists that both have an entry at index 2 and agree at index 0, at
  index 1 and from index 3 on make \<open>interesting\<close> behave the same, value or exception,
  in the same world and detector state, whatever stands at index 2. That entry is read
  by \<open>init\<close> only, which hands it to the detectors as their known path.
\<close>

theorem interesting_ignores_knownPath:
  assumes "3 \<le> length args" and "3 \<le> length args'"
      and "args ! 0 = args' ! 0" and "args ! 1 = args' ! 1"
      and "drop 3 args = drop 3 args'"
  shows "interesting w d args tempPrefix = interesting w d args' tempPrefix \<and>
         init args d = Inr (initWithKnownPath (args ! 2) d) \<and>
         init args' d = Inr (initWithKnownPath (args' ! 2) d)"
proof -
  from assms(1,2) have len:
    "\<not> length args < 1" "\<not> length args < 2" "\<not> length args < 3"
    "\<not> length args' < 1" "\<not> length args' < 2" "\<not> length args' < 3"
    by auto
  have "interesting w d args tempPrefix = interesting w d args' tempPrefix"
    unfolding interesting_def using len assms(3-5) by (simp only: if_False)
  moreover have "init args d = Inr (initWithKnownPath (args ! 2) d)"
    unfolding init_def using len by (simp only: if_False)
  moreover have "init args' d = Inr (initWithKnownPath (args' ! 2) d)"
    unfolding init_def using len by (simp only: if_False)
  ultimately show ?thesis by simp
qed

theorem interesting_ignores_knownPath_witness:
  "interesting (example_world CRASHED [] False True False) uninitialised
     [''5'', ''10'', ''known-a'', ''js'', ''a.js''] ''w8''
   = interesting (example_world CRASHED [] False True False) uninitialised
     [''5'', ''10'', ''known-b'', ''js'', ''a.js''] ''w8'' \<and>
   init [''5'', ''10'', ''known-a'', ''js'', ''a.js''] uninitialised
     \<noteq> init [''5'', ''10'', ''known-b'', ''js'', ''a.js''] uninitialised"
  using interesting_ignores_knownPath [of "[''5'', ''10'', ''known-a'', ''js'', ''a.js'']"
      "[''5'', ''10'', ''known-b'', ''js'', ''a.js'']"
      "example_world CRASHED [] False True False" uninitialised "''w8''"]
  by (simp add: initWithKnownPath_def uninitialised_def)

section \<open>Properties of the shell inspection\<close>

text \<open>
  C8. When the probe returns exit code 0, \<open>shellSupports\<close> returns True; for a code
  from 1 to 3 it returns False; for every other code, below 0 or above 3, it raises an
  exception whose message ends with the code.
\<close>

theorem shellSupports_exit_codes:
  assumes "testBinary pf shellPath args False = Inr (output, retCode)"
  shows "(retCode = 0 \<longrightarrow> shellSupports pf shellPath args = Inr True) \<and>
         (1 \<le> retCode \<and> retCode \<le> 3 \<longrightarrow> shellSupports pf shellPath args = Inr False) \<and>
         (retCode < 0 \<or> 3 < retCode \<longrightarrow>
            shellSupports pf shellPath args
              = Inl (Exception (''Unexpected exit code in shellSupports '' @ str_int retCode)))"
  using assms by (simp add: shellSupports_def)

theorem shellSupports_exit_codes_witness:
  "shellSupports (example_platform ''ok'' 0) ''./js'' [''-e'', ''42''] = Inr True \<and>
   shellSupports (example_platform ''usage'' 2) ''./js'' [''-e'', ''42''] = Inr False \<and>
   shellSupports (example_platform ''boom'' 139) ''./js'' [''-e'', ''42'']
     = Inl (Exception ''Unexpected exit code in shellSupports 139'') \<and>
   shellSupports (example_platform ''killed'' (-9)) ''./js'' [''-e'', ''42'']
     = Inl (Exception ''Unexpected exit code in shellSupports -9'')"
proof -
  have run: "testBinary (example_platform out rc) ''./js'' [''-e'', ''42''] False = Inr (out, rc)"
    for out rc
    by (simp add: testBinary_def example_platform_def)
  have s139: "str_int 139 = ''139''" and s9: "str_int (- 9) = ''-9''"
    by (simp_all add: str_int_def)
  show ?thesis
    using shellSupports_exit_codes [OF run [of "''ok''" 0]]
          shellSupports_exit_codes [OF run [of "''usage''" 2]]
          shellSupports_exit_codes [OF run [of "''boom''" 139]]
          shellSupports_exit_codes [OF run [of "''killed''" "- 9"]]
    by (simp add: s139 s9)
qed

subsection \<open>Substrings\<close>

text \<open>\<open>str_in\<close> is the substring test: the text is some prefix, the needle, some suffix.\<close>

lemma starts_with_iff: "starts_with n h \<longleftrightarrow> (\<exists>s. h = n @ s)"
  by (induction n h rule: starts_with.induct) auto

lemma str_in_iff: "str_in n h \<longleftrightarrow> (\<exists>p s. h = p @ n @ s)"
proof (induction h)
  case Nil
  then show ?case by auto
next
  case (Cons c cs)
  show ?case
  proof
    assume "str_in n (c # cs)"
    then consider "starts_with n (c # cs)" | "str_in n cs" by auto
    then show "\<exists>p s. c # cs = p @ n @ s"
    proof cases
      case 1
      then obtain s where "c # cs = n @ s" by (auto simp: starts_with_iff)
      then have "c # cs = [] @ n @ s" by simp
      then show ?thesis by blast
    next
      case 2
      with Cons obtain p s where "cs = p @ n @ s" by blast
      then have "c # cs = (c # p) @ n @ s" by simp
      then show ?thesis by blast
    qed
  next
    assume "\<exists>p s. c # cs = p @ n @ s"
    then obtain p s where eq: "c # cs = p @ n @ s" by blast
    show "str_in n (c # cs)"
    proof (cases p)
      case Nil
      with eq have "starts_with n (c # cs)" by (auto simp: starts_with_iff)
      then show ?thesis by simp
    next
      case (Cons a p')
      with eq have "cs = p' @ n @ s" by simp
      then have "str_in n cs" using Cons.IH by blast
      then show ?thesis by simp
    qed
  qed
qed

lemma split1_colon:
  "split1 sep (front @ sep # back) ! 1 = back \<and> length (split1 sep (front @ sep # back)) = 2"
  if "sep \<notin> set front"
  using that by (simp add: split1_def Let_def takeWhile_append dropWhile_append)

text \<open>
  C9. On a platform that is not Windows, when the description that \<open>file\<close> prints
  after the first colon contains none of "universal binary", "32-bit", "i386" and
  "64-bit", \<open>archOfBinary\<close> raises nothing and returns \<open>None\<close>, not "32" or "64".
\<close>

theorem archOfBinary_unknown_is_None:
  assumes "\<not> isWin pf"
      and "captureStdout pf [''file'', binary] no_kwargs = Inr (unsplitFiletype, rc)"
      and "2 \<le> length (split1 CHR '':'' unsplitFiletype)"
      and "filetype = split1 CHR '':'' unsplitFiletype ! 1"
      and "\<not> str_in ''universal binary'' filetype"
      and "\<not> str_in ''32-bit'' filetype" and "\<not> str_in ''i386'' filetype"
      and "\<not> str_in ''64-bit'' filetype"
  shows "archOfBinary pf binary = Inr None"
  using assms by (simp add: archOfBinary_def Let_def)

theorem archOfBinary_unknown_is_None_witness:
  "archOfBinary (example_platform ''a.sh: POSIX shell script, ASCII text executable'' 0) ''a.sh''
     = Inr None"
  by (rule archOfBinary_unknown_is_None
        [where unsplitFiletype = "''a.sh: POSIX shell script, ASCII text executable''"
           and rc = 0 and filetype = "'' POSIX shell script, ASCII text executable''"])
     (simp_all add: example_platform_def split1_def)


end
